theory Spec2Isabelle
  imports Complex_Main
begin

section \<open>Strings\<close>

text \<open>
  A JavaScript string is a sequence of UTF-16 code units. \<open>String.prototype.trim\<close>
  removes, at both ends, the code units of ECMAScript's WhiteSpace and LineTerminator
  productions (all of them lie in the basic plane, so each is one code unit).
\<close>

type_synonym js_string = "nat list"

definition is_js_space :: "nat \<Rightarrow> bool" where
  "is_js_space c \<longleftrightarrow>
     c \<in> set [9, 10, 11, 12, 13, 32, 160, 5760, 8232, 8233, 8239, 8287, 12288, 65279]
     \<or> (8192 \<le> c \<and> c \<le> 8202)"

definition trim :: "js_string \<Rightarrow> js_string" where
  "trim s = rev (dropWhile is_js_space (rev (dropWhile is_js_space s)))"

text \<open>Truthiness of a string value: the empty string is falsy.\<close>

definition truthy :: "js_string \<Rightarrow> bool" where
  "truthy s \<longleftrightarrow> s \<noteq> []"

section \<open>Data model (lib/types.ts)\<close>

datatype persona = HM | Tech | HR

datatype quality = Strong | Adequate | Weak | Evasive

datatype interview_mode = Practice | Real

datatype input_mode = VoiceInput | TextInput

datatype msg_role = Interviewer | User

text \<open>
  Message ids are the template strings \<open>q-${Date.now()}\<close> and \<open>a-${Date.now()}\<close>; the
  clock reading is an input of the handler that builds the id.
\<close>

datatype msg_id = QId nat | AId nat

record HintData =
  bullets :: "js_string list option"
  personal_hooks :: "js_string list option"
  avoid :: "js_string list option"
  example_answer :: "js_string option"

record AnswerAnalysis =
  quality :: quality
  confidence_score :: int
  specificity_score :: int
  star_score :: int
  key_points_covered :: "js_string list option"
  missing_points :: "js_string list option"
  flags :: "js_string list option"
  summary :: "js_string option"

record ConsistencyResult =
  consistent :: bool
  contradictions :: "(js_string \<times> js_string) list option"
  concerns :: "js_string list option"

record RoutingResult =
  next_persona :: persona
  action :: js_string
  reason :: js_string
  suggested_topic :: "js_string option"

text \<open>
  The client passes the voice metrics through as an opaque \<open>Record<string, unknown>\<close>;
  the fields are those of the \<open>VoiceMetrics\<close> interface.
\<close>

record VoiceMetrics =
  response_latency_s :: "real option"
  answer_duration_s :: real
  filler_count :: nat
  filler_words :: "js_string list option"
  word_count :: nat
  filler_rate_per_min :: real

record AnswerRequest =
  answer :: js_string
  voice_metrics :: "VoiceMetrics option"

record AnswerResponse =
  res_analysis :: AnswerAnalysis
  res_consistency :: "ConsistencyResult option"
  res_routing :: RoutingResult
  res_turn_number :: nat
  is_interview_over :: bool

record NextQuestionResponse =
  nq_done :: bool
  nq_message :: "js_string option"
  nq_question :: "js_string option"
  nq_persona :: "persona option"
  nq_topic :: "js_string option"
  nq_hints :: "HintData option"

record ChatMessage =
  msg_id :: msg_id
  msg_role :: msg_role
  msg_persona :: "persona option"
  msg_text :: js_string
  msg_topic :: "js_string option"
  msg_analysis :: "AnswerAnalysis option"
  msg_hints :: "HintData option"

section \<open>HintPanel.tsx\<close>

record hint_panel_state =
  panel_open :: bool
  showExample :: bool

definition hint_panel_init :: hint_panel_state where
  "hint_panel_init = \<lparr>panel_open = False, showExample = False\<rparr>"

text \<open>\<open>xs?.length\<close> as a condition: falsy when the list is absent or empty.\<close>

definition has_items :: "js_string list option \<Rightarrow> bool" where
  "has_items xs = (case xs of None \<Rightarrow> False | Some l \<Rightarrow> l \<noteq> [])"

datatype example_view = RevealButton | ExampleText js_string

text \<open>
  What the component returns. The collapsible block is in the tree whether or not the panel
  is open; \<open>view_open\<close> is the class that unfolds it. A section that the JSX guards with
  \<open>&&\<close> is \<open>None\<close> when its guard is falsy.
\<close>

record hint_panel_view =
  button_label :: string
  button_disabled :: bool
  view_open :: bool
  key_points :: "js_string list option"
  from_resume :: "js_string list option"
  avoid_list :: "js_string list option"
  example_block :: "example_view option"

definition section_of :: "js_string list option \<Rightarrow> js_string list option" where
  "section_of xs = (if has_items xs then xs else None)"

definition HintPanel :: "HintData \<Rightarrow> bool \<Rightarrow> hint_panel_state \<Rightarrow> hint_panel_view option" where
  "HintPanel hints disabled st =
     (if \<not> has_items (bullets hints) \<and> \<not> has_items (personal_hooks hints) then None
      else Some \<lparr>
        button_label = (if panel_open st then ''Hide Hints'' else ''Show Hints''),
        button_disabled = disabled,
        view_open = panel_open st,
        key_points = section_of (bullets hints),
        from_resume = section_of (personal_hooks hints),
        avoid_list = section_of (avoid hints),
        example_block =
          (case example_answer hints of
             None \<Rightarrow> None
           | Some ex \<Rightarrow>
               if \<not> truthy ex then None
               else if \<not> showExample st then Some RevealButton
               else Some (ExampleText ex))\<rparr>)"

text \<open>The hint texts a user can read in a rendered panel: those of the unfolded block.\<close>

definition shown_example :: "hint_panel_view option \<Rightarrow> js_string option" where
  "shown_example v =
     (case v of
        None \<Rightarrow> None
      | Some pv \<Rightarrow>
          if \<not> view_open pv then None
          else (case example_block pv of Some (ExampleText ex) \<Rightarrow> Some ex | _ \<Rightarrow> None))"

definition shown_avoid :: "hint_panel_view option \<Rightarrow> js_string list" where
  "shown_avoid v =
     (case v of
        None \<Rightarrow> []
      | Some pv \<Rightarrow> if \<not> view_open pv then [] else (case avoid_list pv of None \<Rightarrow> [] | Some l \<Rightarrow> l))"

text \<open>
  The two click handlers. \<open>handleToggle\<close> calls \<open>onReveal\<close> when the panel goes from
  closed to open and the prop was passed; the second component of the result counts these
  calls. The reveal button of the example answer only runs \<open>setShowExample(true)\<close>.
\<close>

definition handleToggle :: "bool \<Rightarrow> hint_panel_state \<Rightarrow> hint_panel_state \<times> nat" where
  "handleToggle has_onReveal st =
     (st\<lparr>panel_open := \<not> panel_open st\<rparr>,
      if \<not> panel_open st \<and> has_onReveal then 1 else 0)"

definition clickShowExample :: "hint_panel_state \<Rightarrow> hint_panel_state" where
  "clickShowExample st = st\<lparr>showExample := True\<rparr>"

section \<open>VoiceRecorder.tsx\<close>

datatype ws_message =
    MsgPartial js_string
  | MsgFinal js_string
  | MsgDone js_string VoiceMetrics
  | MsgError js_string
  | MsgOther

datatype recorder_callback =
    OnTranscript js_string bool
  | OnDone js_string VoiceMetrics
  | OnError js_string

record recorder_state =
  recording :: bool
  partialText :: js_string

definition recorder_init :: recorder_state where
  "recorder_init = \<lparr>recording = False, partialText = []\<rparr>"

definition js :: "string \<Rightarrow> js_string" where
  "js s = map of_char s"

text \<open>\<open>ws.onmessage\<close>, on the parsed message, and \<open>ws.onerror\<close>.\<close>

fun onmessage :: "ws_message \<Rightarrow> recorder_state \<Rightarrow> recorder_state \<times> recorder_callback list" where
  "onmessage (MsgPartial t) r = (r\<lparr>partialText := t\<rparr>, [OnTranscript t False])"
| "onmessage (MsgFinal t) r = (r\<lparr>partialText := []\<rparr>, [OnTranscript t True])"
| "onmessage (MsgDone t vm) r = (r\<lparr>recording := False\<rparr>, [OnDone t vm])"
| "onmessage (MsgError m) r = (r\<lparr>recording := False\<rparr>, [OnError m])"
| "onmessage MsgOther r = (r, [])"

definition onerror :: "recorder_state \<Rightarrow> recorder_state \<times> recorder_callback list" where
  "onerror r = (r\<lparr>recording := False\<rparr>, [OnError (js ''WebSocket connection failed'')])"

section \<open>InterviewChat.tsx\<close>

datatype api_call = GetNext | PostAnswer AnswerRequest

text \<open>
  A render creates its own \<open>handleSubmitAnswer\<close>, which closes over that render's
  \<open>loading\<close> and \<open>currentPersona\<close> (the dependencies of its \<open>useCallback\<close>); every other
  access to the state goes through a setter and acts on the current state. The voice
  recorder's \<open>startRecording\<close> closes over the \<open>onDone\<close> of the render in which Speak was
  clicked, and installs it in the socket's \<open>onmessage\<close>: a socket keeps the closure of that
  render for as long as it delivers events.
\<close>

record closure =
  cl_loading :: bool
  cl_currentPersona :: "persona option"

text \<open>
  A voice socket: its ready state (closing and closed are one state here: neither delivers
  messages), the closure its handlers hold, and the recorder instance that created it.
\<close>

datatype ready_state = CONNECTING | OPEN | CLOSED

record socket =
  ws_state :: ready_state
  ws_closure :: closure
  ws_owner :: nat

text \<open>
  The component's state (one field per \<open>useState\<close>), the state of its two child
  components, and its surroundings: every request sent to the server so far, the requests
  still awaiting their response, and what was written to the console. An awaited
  \<open>submitAnswer\<close> remembers what its continuation closes over: the id of the user message
  and \<open>currentPersona\<close>. For the voice recorder: the number of the mounted instance (a
  remount is a new instance with fresh state and refs), its \<open>wsRef\<close>, every socket created
  so far, and the \<open>getUserMedia\<close> calls that \<open>startRecording\<close> still awaits, each with
  the closure and the instance of its click.
\<close>

record chat =
  messages :: "ChatMessage list"
  inputText :: js_string
  inputMode :: input_mode
  loading :: bool
  currentHints :: "HintData option"
  currentQuestion :: nat
  lastAnalysis :: "AnswerAnalysis option"
  lastPersona :: "persona option"
  isDone :: bool
  currentPersona :: "persona option"
  currentQuestionText :: js_string
  voiceTranscript :: js_string
  hintPanel :: hint_panel_state
  recorder :: recorder_state
  api_log :: "api_call list"
  pending_submit :: "(msg_id \<times> persona option) list"
  pending_next :: nat
  console_errors :: "js_string list"
  recorder_key :: nat
  wsRef :: "nat option"
  sockets :: "socket list"
  mic_requests :: "(closure \<times> nat) list"

definition chat_init :: chat where
  "chat_init = \<lparr>
     messages = [], inputText = [], inputMode = VoiceInput, loading = False,
     currentHints = None, currentQuestion = 0, lastAnalysis = None, lastPersona = None,
     isDone = False, currentPersona = None, currentQuestionText = [], voiceTranscript = [],
     hintPanel = hint_panel_init, recorder = recorder_init,
     api_log = [], pending_submit = [], pending_next = 0, console_errors = [],
     recorder_key = 0, wsRef = None, sockets = [], mic_requests = []\<rparr>"

definition render_closure :: "chat \<Rightarrow> closure" where
  "render_closure c = \<lparr>cl_loading = loading c, cl_currentPersona = currentPersona c\<rparr>"


text \<open>
  \<open>fetchNextQuestion\<close> up to its \<open>await\<close>, and its continuation for a fulfilled and for a
  rejected request. The \<open>finally\<close> block ends both. When \<open>handleSubmitAnswer\<close> awaits
  \<open>fetchNextQuestion\<close>, its own \<open>finally\<close> runs in the same task and sets \<open>loading\<close> to
  false a second time.
\<close>

definition fetchNextQuestion :: "chat \<Rightarrow> chat" where
  "fetchNextQuestion c =
     c\<lparr>loading := True, api_log := api_log c @ [GetNext], pending_next := pending_next c + 1\<rparr>"

definition question_message :: "nat \<Rightarrow> NextQuestionResponse \<Rightarrow> js_string \<Rightarrow> persona \<Rightarrow> ChatMessage" where
  "question_message now res q p =
     \<lparr>msg_id = QId now, msg_role = Interviewer, msg_persona = Some p, msg_text = q,
      msg_topic = nq_topic res, msg_analysis = None, msg_hints = nq_hints res\<rparr>"

definition next_fulfilled :: "nat \<Rightarrow> NextQuestionResponse \<Rightarrow> chat \<Rightarrow> chat" where
  "next_fulfilled now res c =
     (if pending_next c = 0 then c
      else
        let c1 = c\<lparr>pending_next := pending_next c - 1\<rparr>;
            c2 =
              (if nq_done res then c1\<lparr>isDone := True\<rparr>
               else
                 (case (nq_question res, nq_persona res) of
                    (Some q, Some p) \<Rightarrow>
                      if truthy q then
                        c1\<lparr>messages := messages c1 @ [question_message now res q p],
                           currentHints := nq_hints res,
                           currentPersona := Some p,
                           currentQuestionText := q,
                           currentQuestion := currentQuestion c1 + 1\<rparr>
                      else c1
                  | _ \<Rightarrow> c1))
        in c2\<lparr>loading := False\<rparr>)"

definition next_rejected :: "chat \<Rightarrow> chat" where
  "next_rejected c =
     (if pending_next c = 0 then c
      else c\<lparr>pending_next := pending_next c - 1,
             console_errors := console_errors c @ [js ''Failed to get next question:''],
             loading := False\<rparr>)"

text \<open>
  \<open>handleSubmitAnswer\<close> up to its \<open>await\<close>: first as the latest render created it (the
  form's \<open>onSubmit\<close> always holds this one), then as the render with the closure \<open>cl\<close>
  created it.
\<close>

definition user_message :: "nat \<Rightarrow> js_string \<Rightarrow> ChatMessage" where
  "user_message now answerText =
     \<lparr>msg_id = AId now, msg_role = User, msg_persona = None, msg_text = answerText,
      msg_topic = None, msg_analysis = None, msg_hints = None\<rparr>"

definition handleSubmitAnswer :: "nat \<Rightarrow> js_string \<Rightarrow> VoiceMetrics option \<Rightarrow> chat \<Rightarrow> chat" where
  "handleSubmitAnswer now answerText voiceMetrics c =
     (if \<not> truthy (trim answerText) \<or> loading c then c
      else
        c\<lparr>messages := messages c @ [user_message now answerText],
          inputText := [],
          voiceTranscript := [],
          currentHints := None,
          loading := True,
          api_log := api_log c @ [PostAnswer \<lparr>answer = answerText, voice_metrics = voiceMetrics\<rparr>],
          pending_submit := pending_submit c @ [(AId now, currentPersona c)]\<rparr>)"

definition handleSubmitAnswer_of ::
  "closure \<Rightarrow> nat \<Rightarrow> js_string \<Rightarrow> VoiceMetrics option \<Rightarrow> chat \<Rightarrow> chat" where
  "handleSubmitAnswer_of cl now answerText voiceMetrics c =
     (if \<not> truthy (trim answerText) \<or> cl_loading cl then c
      else
        c\<lparr>messages := messages c @ [user_message now answerText],
          inputText := [],
          voiceTranscript := [],
          currentHints := None,
          loading := True,
          api_log := api_log c @ [PostAnswer \<lparr>answer = answerText, voice_metrics = voiceMetrics\<rparr>],
          pending_submit := pending_submit c @ [(AId now, cl_currentPersona cl)]\<rparr>)"

text \<open>
  The continuation of the \<open>k\<close>-th awaited \<open>submitAnswer\<close>, fulfilled with \<open>res\<close> or
  rejected.
\<close>

definition attach_analysis :: "msg_id \<Rightarrow> AnswerAnalysis \<Rightarrow> ChatMessage \<Rightarrow> ChatMessage" where
  "attach_analysis mid a m = (if msg_id m = mid then m\<lparr>msg_analysis := Some a\<rparr> else m)"

definition submit_fulfilled :: "nat \<Rightarrow> AnswerResponse \<Rightarrow> chat \<Rightarrow> chat" where
  "submit_fulfilled k res c =
     (if length (pending_submit c) \<le> k then c
      else
        let mid = fst (pending_submit c ! k);
            captured = snd (pending_submit c ! k);
            c1 = c\<lparr>pending_submit := take k (pending_submit c) @ drop (Suc k) (pending_submit c),
                   messages := map (attach_analysis mid (res_analysis res)) (messages c),
                   lastAnalysis := Some (res_analysis res),
                   lastPersona := captured\<rparr>
        in if is_interview_over res then c1\<lparr>isDone := True, loading := False\<rparr>
           else fetchNextQuestion c1)"

definition submit_rejected :: "nat \<Rightarrow> chat \<Rightarrow> chat" where
  "submit_rejected k c =
     (if length (pending_submit c) \<le> k then c
      else c\<lparr>pending_submit := take k (pending_submit c) @ drop (Suc k) (pending_submit c),
             console_errors := console_errors c @ [js ''Failed to submit answer:''],
             loading := False\<rparr>)"

text \<open>
  The handlers given to the voice recorder, as the render with the closure \<open>cl\<close> created
  them, and the recorder's callbacks run in order.
\<close>

definition handleVoiceTranscript :: "js_string \<Rightarrow> bool \<Rightarrow> chat \<Rightarrow> chat" where
  "handleVoiceTranscript t isFinal c =
     (if isFinal then c\<lparr>voiceTranscript := voiceTranscript c @ js '' '' @ t\<rparr>
      else c\<lparr>voiceTranscript := t\<rparr>)"

definition handleVoiceDone :: "closure \<Rightarrow> nat \<Rightarrow> js_string \<Rightarrow> VoiceMetrics \<Rightarrow> chat \<Rightarrow> chat" where
  "handleVoiceDone cl now transcript voiceMetrics c =
     handleSubmitAnswer_of cl now transcript (Some voiceMetrics) c"

fun callback :: "closure \<Rightarrow> nat \<Rightarrow> recorder_callback \<Rightarrow> chat \<Rightarrow> chat" where
  "callback cl now (OnTranscript t isFinal) c = handleVoiceTranscript t isFinal c"
| "callback cl now (OnDone t vm) c = handleVoiceDone cl now t vm c"
| "callback cl now (OnError m) c = c\<lparr>console_errors := console_errors c @ [js ''Voice error:'' @ m]\<rparr>"

subsection \<open>What the component renders\<close>

text \<open>
  The hint panel is rendered under \<open>currentHints && mode === "practice"\<close>, in the chat
  screen only (the component returns the completion screen when \<open>isDone\<close>).
\<close>

definition hint_area :: "interview_mode \<Rightarrow> chat \<Rightarrow> hint_panel_view option" where
  "hint_area mode c =
     (if isDone c then None
      else (case currentHints c of
              None \<Rightarrow> None
            | Some h \<Rightarrow> if mode = Practice then HintPanel h (loading c) (hintPanel c) else None))"

definition hint_panel_mounted :: "interview_mode \<Rightarrow> chat \<Rightarrow> bool" where
  "hint_panel_mounted mode c \<longleftrightarrow> \<not> isDone c \<and> currentHints c \<noteq> None \<and> mode = Practice"

definition recorder_mounted :: "chat \<Rightarrow> bool" where
  "recorder_mounted c \<longleftrightarrow> \<not> isDone c \<and> inputMode c = VoiceInput"

text \<open>
  A handler of the socket \<open>i\<close> runs: its state updates reach the recorder only while the
  instance that created the socket is the mounted one, and its callbacks run with the
  closure of that socket.
\<close>

definition socket_event ::
  "nat \<Rightarrow> nat \<Rightarrow> (recorder_state \<Rightarrow> recorder_state \<times> recorder_callback list) \<Rightarrow> chat \<Rightarrow> chat" where
  "socket_event i now handler c =
     (let s = sockets c ! i;
          r = fst (handler (recorder c));
          cbs = snd (handler (recorder c));
          c1 = (if ws_owner s = recorder_key c \<and> recorder_mounted c then c\<lparr>recorder := r\<rparr> else c)
      in foldl (\<lambda>c' cb. callback (ws_closure s) now cb c') c1 cbs)"

text \<open>
  A child component that leaves the tree loses its state. The recorder's unmount effect
  closes the socket in \<open>wsRef\<close> if it is open, and only then; the next mount is a new
  instance.
\<close>

definition recorder_unmount :: "chat \<Rightarrow> chat" where
  "recorder_unmount c =
     c\<lparr>recorder := recorder_init,
       sockets :=
         (case wsRef c of
            None \<Rightarrow> sockets c
          | Some i \<Rightarrow>
              if i < length (sockets c) \<and> ws_state (sockets c ! i) = OPEN
              then (sockets c)[i := (sockets c ! i)\<lparr>ws_state := CLOSED\<rparr>]
              else sockets c),
       wsRef := None,
       recorder_key := Suc (recorder_key c)\<rparr>"

definition unmount_children :: "interview_mode \<Rightarrow> chat \<Rightarrow> chat \<Rightarrow> chat" where
  "unmount_children mode before c =
     (let c1 = (if hint_panel_mounted mode c then c else c\<lparr>hintPanel := hint_panel_init\<rparr>)
      in if recorder_mounted before \<and> \<not> recorder_mounted c1 then recorder_unmount c1 else c1)"

subsection \<open>Events\<close>

text \<open>
  What can happen to a mounted \<open>InterviewChat\<close>: the user acts on a control that is in
  the rendered tree and enabled, a \<open>getUserMedia\<close> call settles, a voice socket opens,
  delivers a message, fails or closes, or an awaited request settles. A handler of the
  rendered tree is the one of the latest render; the handlers of a socket are those
  installed when it was created. \<open>InterviewChat\<close> passes no \<open>onReveal\<close> to the hint panel.
  A socket delivers messages only while it is open; nothing in the recorder closes a socket
  after an error, so messages after an error are still handled.
\<close>

datatype event =
    EvSetInputMode input_mode
  | EvType js_string
  | EvTextSubmit nat
  | EvHintToggle
  | EvShowExample
  | EvSpeak
  | EvMicGranted nat
  | EvMicError nat js_string
  | EvWsOpen nat
  | EvWsMessage nat nat ws_message
  | EvWsError nat nat
  | EvWsClose nat
  | EvSubmitFulfilled nat AnswerResponse
  | EvSubmitRejected nat
  | EvNextFulfilled nat NextQuestionResponse
  | EvNextRejected

fun handle :: "interview_mode \<Rightarrow> event \<Rightarrow> chat \<Rightarrow> chat" where
  "handle mode (EvSetInputMode m) c = (if isDone c then c else c\<lparr>inputMode := m\<rparr>)"
| "handle mode (EvType t) c =
     (if isDone c \<or> inputMode c \<noteq> TextInput \<or> loading c then c else c\<lparr>inputText := t\<rparr>)"
| "handle mode (EvTextSubmit now) c =
     (if isDone c \<or> inputMode c \<noteq> TextInput then c
      else handleSubmitAnswer now (inputText c) None c)"
| "handle mode EvHintToggle c =
     (case hint_area mode c of
        None \<Rightarrow> c
      | Some v \<Rightarrow>
          if button_disabled v then c
          else c\<lparr>hintPanel := fst (handleToggle False (hintPanel c))\<rparr>)"
| "handle mode EvShowExample c =
     (case hint_area mode c of
        None \<Rightarrow> c
      | Some v \<Rightarrow>
          if example_block v = Some RevealButton
          then c\<lparr>hintPanel := clickShowExample (hintPanel c)\<rparr>
          else c)"
| "handle mode EvSpeak c =
     (if recorder_mounted c \<and> \<not> recording (recorder c) \<and> \<not> loading c
      then c\<lparr>mic_requests := mic_requests c @ [(render_closure c, recorder_key c)]\<rparr>
      else c)"
| "handle mode (EvMicGranted k) c =
     (if length (mic_requests c) \<le> k then c
      else
        let cl = fst (mic_requests c ! k);
            owner = snd (mic_requests c ! k);
            c1 = c\<lparr>mic_requests := take k (mic_requests c) @ drop (Suc k) (mic_requests c),
                   sockets := sockets c @ [\<lparr>ws_state = CONNECTING, ws_closure = cl, ws_owner = owner\<rparr>]\<rparr>
        in if owner = recorder_key c \<and> recorder_mounted c
           then c1\<lparr>wsRef := Some (length (sockets c))\<rparr>
           else c1)"
| "handle mode (EvMicError k m) c =
     (if length (mic_requests c) \<le> k then c
      else
        callback (fst (mic_requests c ! k)) 0 (OnError m)
          (c\<lparr>mic_requests := take k (mic_requests c) @ drop (Suc k) (mic_requests c)\<rparr>))"
| "handle mode (EvWsOpen i) c =
     (if i < length (sockets c) \<and> ws_state (sockets c ! i) = CONNECTING
      then
        let c1 = c\<lparr>sockets := (sockets c)[i := (sockets c ! i)\<lparr>ws_state := OPEN\<rparr>]\<rparr>
        in if ws_owner (sockets c ! i) = recorder_key c \<and> recorder_mounted c
           then c1\<lparr>recorder := (recorder c)\<lparr>recording := True\<rparr>\<rparr>
           else c1
      else c)"
| "handle mode (EvWsMessage i now m) c =
     (if i < length (sockets c) \<and> ws_state (sockets c ! i) = OPEN
      then socket_event i now (onmessage m) c
      else c)"
| "handle mode (EvWsError i now) c =
     (if i < length (sockets c) \<and> ws_state (sockets c ! i) \<noteq> CLOSED
      then socket_event i now onerror c
      else c)"
| "handle mode (EvWsClose i) c =
     (if i < length (sockets c)
      then c\<lparr>sockets := (sockets c)[i := (sockets c ! i)\<lparr>ws_state := CLOSED\<rparr>]\<rparr>
      else c)"
| "handle mode (EvSubmitFulfilled k res) c = submit_fulfilled k res c"
| "handle mode (EvSubmitRejected k) c = submit_rejected k c"
| "handle mode (EvNextFulfilled now res) c = next_fulfilled now res c"
| "handle mode EvNextRejected c = next_rejected c"

definition step :: "interview_mode \<Rightarrow> chat \<Rightarrow> event \<Rightarrow> chat" where
  "step mode c e = unmount_children mode c (handle mode e c)"

text \<open>The mount effect fetches the first question; then events arrive one by one.\<close>

definition mounted :: chat where
  "mounted = fetchNextQuestion chat_init"

definition run :: "interview_mode \<Rightarrow> event list \<Rightarrow> chat" where
  "run mode evs = foldl (step mode) mounted evs"



text \<open>
  Every closure held by a socket or by a pending \<open>getUserMedia\<close> call was created by a
  render whose \<open>loading\<close> was false.
\<close>

definition closures_idle :: "chat \<Rightarrow> bool" where
  "closures_idle c \<longleftrightarrow>
     (\<forall>s\<in>set (sockets c). \<not> cl_loading (ws_closure s))
     \<and> (\<forall>r\<in>set (mic_requests c). \<not> cl_loading (fst r))"

section \<open>ChatMessage.tsx\<close>

text \<open>The labels of \<open>PERSONA_CONFIG\<close> and \<open>QUALITY_CONFIG\<close> (lib/constants.ts).\<close>

fun persona_label :: "persona \<Rightarrow> string" where
  "persona_label HM = ''Hiring Manager''"
| "persona_label Tech = ''Technical Lead''"
| "persona_label HR = ''HR Partner''"

fun quality_label :: "quality \<Rightarrow> string" where
  "quality_label Strong = ''Strong''"
| "quality_label Adequate = ''Adequate''"
| "quality_label Weak = ''Weak''"
| "quality_label Evasive = ''Evasive''"

record message_view =
  mv_is_user :: bool
  mv_persona_label :: "(string \<times> js_string option) option"
  mv_text :: js_string
  mv_badge :: "(string \<times> int) option"

definition ChatMessage_render :: "ChatMessage \<Rightarrow> message_view" where
  "ChatMessage_render message =
     (let isUser = (msg_role message = User)
      in \<lparr>mv_is_user = isUser,
          mv_persona_label =
            (case msg_persona message of
               None \<Rightarrow> None
             | Some p \<Rightarrow>
                 if isUser then None
                 else Some (persona_label p,
                            case msg_topic message of
                              None \<Rightarrow> None
                            | Some t \<Rightarrow> if truthy t then Some t else None)),
          mv_text = msg_text message,
          mv_badge =
            (case msg_analysis message of
               None \<Rightarrow> None
             | Some a \<Rightarrow>
                 if isUser then Some (quality_label (quality a), confidence_score a)
                 else None)\<rparr>)"

text \<open>The chat screen: the message bubbles and the hint panel under them.\<close>

definition chat_screen :: "interview_mode \<Rightarrow> chat \<Rightarrow> message_view list \<times> hint_panel_view option" where
  "chat_screen mode c = (map ChatMessage_render (messages c), hint_area mode c)"

section \<open>Sample data\<close>

definition sample_metrics :: VoiceMetrics where
  "sample_metrics =
     \<lparr>response_latency_s = Some 1, answer_duration_s = 12, filler_count = 2,
      filler_words = Some [[117, 109]], word_count = 30, filler_rate_per_min = 10\<rparr>"

definition sample_hints :: HintData where
  "sample_hints =
     \<lparr>bullets = Some [[105, 109, 112, 97, 99, 116]], personal_hooks = None,
      avoid = Some [[106, 97, 114, 103, 111, 110]],
      example_answer = Some [73, 32, 108, 101, 100]\<rparr>"

definition sample_question :: NextQuestionResponse where
  "sample_question =
     \<lparr>nq_done = False, nq_message = None, nq_question = Some [87, 104, 121, 63],
      nq_persona = Some HM, nq_topic = Some [102, 105, 116], nq_hints = Some sample_hints\<rparr>"

text \<open>Hints with an avoid list and an example answer, but no key points and no hooks.\<close>

definition bare_hints :: HintData where
  "bare_hints =
     \<lparr>bullets = Some [], personal_hooks = None,
      avoid = Some [[106, 97, 114, 103, 111, 110]],
      example_answer = Some [73, 32, 108, 101, 100]\<rparr>"

text \<open>The chat after the first question arrived, with hints, in practice mode.\<close>

definition asked :: chat where
  "asked = chat_init\<lparr>
     messages := [question_message 5 sample_question [87, 104, 121, 63] HM],
     currentHints := Some sample_hints,
     currentQuestion := 1,
     currentPersona := Some HM,
     currentQuestionText := [87, 104, 121, 63],
     api_log := [GetNext]\<rparr>"

text \<open>
  The user clicks Speak on that question, the microphone is granted and the voice socket
  opens: the recorder is recording, and the socket's handlers hold the closure of the
  render of the click.
\<close>

definition start_voice :: "event list" where
  "start_voice = [EvNextFulfilled 5 sample_question, EvSpeak, EvMicGranted 0, EvWsOpen 0]"

definition voice_closure :: closure where
  "voice_closure = \<lparr>cl_loading = False, cl_currentPersona = Some HM\<rparr>"

definition listening :: chat where
  "listening = asked\<lparr>
     recorder := \<lparr>recording = True, partialText = []\<rparr>,
     wsRef := Some 0,
     sockets := [\<lparr>ws_state = OPEN, ws_closure = voice_closure, ws_owner = 0\<rparr>]\<rparr>"

text \<open>The answer \<open>hi\<close> as a request, spoken and typed.\<close>

definition spoken_answer :: api_call where
  "spoken_answer = PostAnswer \<lparr>answer = [104, 105], voice_metrics = Some sample_metrics\<rparr>"

definition typed_answer :: api_call where
  "typed_answer = PostAnswer \<lparr>answer = [104, 105], voice_metrics = None\<rparr>"

section \<open>Float samples to 16-bit PCM (VoiceRecorder.tsx, onaudioprocess)\<close>















section \<open>The orchestration core\<close>

text \<open>
  The server side of the interview (routing, the session state machine, evaluation) is
  Python code that is not among the sources here; the client only holds its type
  declarations and calls its endpoints. The definitions of this section follow the
  specification.
\<close>

subsection \<open>Session state, next question, routing\<close>

text \<open>
  Modelled from the spec: the phases of the orchestrator's state machine (section 4.1), the
  routing actions (sections 3 and 4.2), the failures of section 7 that the operations below
  can return, and the records of section 3, as far as the operations below use them. The
  server's state is missing from the sources.
\<close>

datatype phase = SETUP | RESEARCHING | PLANNING | INTERVIEWING | EVALUATING | DONE


datatype session_error = InvalidSessionState | EmptySession

record QuestionPlanItem =
  item_question :: js_string
  item_persona :: persona
  item_topic :: js_string
  item_priority :: js_string
  item_depth :: js_string

text \<open>
  Modelled from the spec: a finalized turn (section 3); the model keeps its number, its plan
  item, the answer and the quality of its analysis.
\<close>

record InterviewTurn =
  turn_number :: nat
  turn_item :: nat
  turn_answer :: js_string
  turn_quality :: quality

text \<open>
  Modelled from the spec: the evaluation report (section 3), reduced to its overall score,
  its per-question records and its action plan.
\<close>

record EvaluationReport =
  overall_score :: int
  per_question :: "InterviewTurn list"
  action_plan :: "js_string list"

text \<open>
  Modelled from the spec: the session record (section 3): phase, mode, plan, current plan
  index, whether the current plan item already had its follow-up, the turn history and the
  stored report.
\<close>

record InterviewState =
  st_phase :: phase
  st_mode :: interview_mode
  st_plan :: "QuestionPlanItem list"
  st_index :: nat
  st_followup_used :: bool
  st_turns :: "InterviewTurn list"
  st_report :: "EvaluationReport option"

text \<open>
  Modelled from the spec: \<open>get_next\<close> of the orchestrator (sections 4.1, 4.5 and 6), which
  is missing from the sources. It answers \<open>done\<close> when the plan is exhausted, and the
  current plan item otherwise; hints are generated in practice mode only and are omitted
  when the mode is real. The hint generator is a parameter.
\<close>

definition get_next :: "(QuestionPlanItem \<Rightarrow> HintData) \<Rightarrow> InterviewState \<Rightarrow> NextQuestionResponse" where
  "get_next hint_generator st =
     (if length (st_plan st) \<le> st_index st then
        \<lparr>nq_done = True, nq_message = None, nq_question = None, nq_persona = None,
         nq_topic = None, nq_hints = None\<rparr>
      else
        let item = st_plan st ! st_index st
        in \<lparr>nq_done = False, nq_message = None,
            nq_question = Some (item_question item),
            nq_persona = Some (item_persona item),
            nq_topic = Some (item_topic item),
            nq_hints = (if st_mode st = Practice then Some (hint_generator item) else None)\<rparr>)"










text \<open>
  Modelled from the spec: the session as \<open>start_session\<close> leaves it when the first question
  is emitted (section 4.1); \<open>start_session\<close> is missing from the sources.
\<close>

definition start_interview :: "interview_mode \<Rightarrow> QuestionPlanItem list \<Rightarrow> InterviewState" where
  "start_interview mode plan =
     \<lparr>st_phase = INTERVIEWING, st_mode = mode, st_plan = plan, st_index = 0,
      st_followup_used = False, st_turns = [], st_report = None\<rparr>"

subsection \<open>Evaluation\<close>

text \<open>
  Modelled from the spec: \<open>evaluate\<close> of the orchestrator (sections 4.1, 5 and 7), which is
  missing from the sources. A session that is \<open>DONE\<close> returns its stored report; a session
  without turns fails with \<open>EmptySession\<close>; a session in \<open>EVALUATING\<close> runs the evaluation
  agent once, stores the report and becomes \<open>DONE\<close>. The evaluation agent is a parameter.
\<close>

definition evaluate ::
  "(InterviewTurn list \<Rightarrow> EvaluationReport) \<Rightarrow> InterviewState \<Rightarrow> session_error + (EvaluationReport \<times> InterviewState)" where
  "evaluate agent st =
     (if st_phase st = DONE then
        (case st_report st of
           Some r \<Rightarrow> Inr (r, st)
         | None \<Rightarrow> Inl InvalidSessionState)
      else if st_turns st = [] then Inl EmptySession
      else if st_phase st = EVALUATING then
        (let r = agent (st_turns st)
         in Inr (r, st\<lparr>st_phase := DONE, st_report := Some r\<rparr>))
      else Inl InvalidSessionState)"

definition sample_plan :: "QuestionPlanItem list" where
  "sample_plan =
     [\<lparr>item_question = [87, 104, 121, 63], item_persona = HM, item_topic = [102, 105, 116],
       item_priority = [104], item_depth = [49]\<rparr>,
      \<lparr>item_question = [72, 111, 119, 63], item_persona = Tech, item_topic = [97, 112, 105],
       item_priority = [104], item_depth = [49]\<rparr>]"

definition sample_turn :: InterviewTurn where
  "sample_turn =
     \<lparr>turn_number = 1, turn_item = 0, turn_answer = [104, 105], turn_quality = Strong\<rparr>"

definition sample_report :: "int \<Rightarrow> InterviewTurn list \<Rightarrow> EvaluationReport" where
  "sample_report score turns = \<lparr>overall_score = score, per_question = turns, action_plan = []\<rparr>"

section \<open>Properties\<close>

subsection \<open>Helper lemmas on runs\<close>

lemma run_snoc: "run mode (evs @ [e]) = step mode (run mode evs) e"
  by (simp add: run_def)

lemmas eval_defs = step_def unmount_children_def recorder_unmount_def hint_panel_mounted_def
  recorder_mounted_def hint_panel_init_def recorder_init_def chat_init_def Let_def

lemmas sample_defs = asked_def listening_def voice_closure_def spoken_answer_def
  typed_answer_def sample_question_def sample_hints_def

lemmas submit_defs = socket_event_def handleVoiceDone_def handleSubmitAnswer_of_def
  handleSubmitAnswer_def render_closure_def truthy_def trim_def is_js_space_def

lemma step_asked: "step Practice mounted (EvNextFulfilled 5 sample_question) = asked"
  by (simp add: eval_defs asked_def mounted_def fetchNextQuestion_def next_fulfilled_def
      sample_question_def truthy_def)

lemma step_speak:
  "step Practice asked EvSpeak = asked\<lparr>mic_requests := [(voice_closure, 0)]\<rparr>"
  by (simp add: eval_defs sample_defs render_closure_def)

lemma step_granted:
  "step Practice (asked\<lparr>mic_requests := [(voice_closure, 0)]\<rparr>) (EvMicGranted 0)
   = asked\<lparr>wsRef := Some 0,
       sockets := [\<lparr>ws_state = CONNECTING, ws_closure = voice_closure, ws_owner = 0\<rparr>]\<rparr>"
  by (simp add: eval_defs sample_defs)

lemma step_open:
  "step Practice
     (asked\<lparr>wsRef := Some 0,
        sockets := [\<lparr>ws_state = CONNECTING, ws_closure = voice_closure, ws_owner = 0\<rparr>]\<rparr>)
     (EvWsOpen 0)
   = listening"
  by (simp add: eval_defs sample_defs)

lemma run_start_voice: "run Practice start_voice = listening"
  by (simp add: run_def start_voice_def step_asked step_speak step_granted step_open)

lemma step_first_done:
  "step Practice listening (EvWsMessage 0 7 (MsgDone [104, 105] sample_metrics))
   = listening\<lparr>recorder := recorder_init,
       messages := [question_message 5 sample_question [87, 104, 121, 63] HM,
                    user_message 7 [104, 105]],
       currentHints := None, loading := True,
       api_log := [GetNext, spoken_answer],
       pending_submit := [(AId 7, Some HM)]\<rparr>"
  by (simp add: eval_defs sample_defs submit_defs)

lemma step_second_done:
  "step Practice
     (listening\<lparr>recorder := recorder_init,
        messages := [question_message 5 sample_question [87, 104, 121, 63] HM,
                     user_message 7 [104, 105]],
        currentHints := None, loading := True,
        api_log := [GetNext, spoken_answer],
        pending_submit := [(AId 7, Some HM)]\<rparr>)
     (EvWsMessage 0 8 (MsgDone [104, 105] sample_metrics))
   = listening\<lparr>recorder := recorder_init,
       messages := [question_message 5 sample_question [87, 104, 121, 63] HM,
                    user_message 7 [104, 105], user_message 8 [104, 105]],
       currentHints := None, loading := True,
       api_log := [GetNext, spoken_answer, spoken_answer],
       pending_submit := [(AId 7, Some HM), (AId 8, Some HM)]\<rparr>"
  by (simp add: eval_defs sample_defs submit_defs)



subsection \<open>Blank answers\<close>

lemma trim_empty_iff: "trim s = [] \<longleftrightarrow> (\<forall>c\<in>set s. is_js_space c)"
proof
  assume "trim s = []"
  then have "\<forall>c\<in>set (dropWhile is_js_space s). is_js_space c"
    by (simp add: trim_def)
  then have "dropWhile is_js_space s = []"
    using hd_dropWhile [of is_js_space s] hd_in_set [of "dropWhile is_js_space s"] by blast
  then show "\<forall>c\<in>set s. is_js_space c"
    by simp
next
  assume "\<forall>c\<in>set s. is_js_space c"
  then show "trim s = []"
    by (auto simp: trim_def dest: set_dropWhileD)
qed

text \<open>
  C8. An attempt to submit an answer that is empty or consists of whitespace only changes
  nothing: no user message is appended, no request is sent, no request is awaited, and
  every other part of the state is as before. This holds for the handler of every render,
  whatever it closes over.
\<close>

theorem blank_answer_not_submitted:
  assumes "\<forall>ch\<in>set answerText. is_js_space ch"
  shows "handleSubmitAnswer now answerText voiceMetrics c = c
    \<and> handleSubmitAnswer_of cl now answerText voiceMetrics c = c"
  using assms
  by (simp add: handleSubmitAnswer_def handleSubmitAnswer_of_def truthy_def trim_empty_iff)

theorem blank_answer_not_submitted_witness:
  "is_js_space 32 \<and> is_js_space 9 \<and> is_js_space 10 \<and> is_js_space 160 \<and> is_js_space 8232
   \<and> \<not> loading asked \<and> \<not> cl_loading voice_closure
   \<and> handleSubmitAnswer 7 [32, 9, 10, 160, 8232] None asked = asked
   \<and> handleSubmitAnswer_of voice_closure 7 [32, 9, 10, 160, 8232] (Some sample_metrics) asked
       = asked
   \<and> handle Practice (EvTextSubmit 7) (chat_init\<lparr>inputMode := TextInput\<rparr>)
       = chat_init\<lparr>inputMode := TextInput\<rparr>"
proof -
  have spaces: "is_js_space 32 \<and> is_js_space 9 \<and> is_js_space 10 \<and> is_js_space 160
      \<and> is_js_space 8232"
    by (simp add: is_js_space_def)
  then have blank: "\<forall>ch\<in>set [32, 9, 10, 160, 8232]. is_js_space ch"
    by simp
  have empty: "\<forall>ch\<in>set (inputText (chat_init\<lparr>inputMode := TextInput\<rparr>)). is_js_space ch"
    by (simp add: chat_init_def)
  have idle: "\<not> loading asked \<and> \<not> cl_loading voice_closure"
    by (simp add: asked_def chat_init_def voice_closure_def)
  show ?thesis
    using spaces idle
      blank_answer_not_submitted [OF blank, of 7 None asked voice_closure]
      blank_answer_not_submitted [OF blank, of 7 "Some sample_metrics" asked voice_closure]
      blank_answer_not_submitted [OF empty, of 7 None _ voice_closure]
    by (simp add: chat_init_def)
qed

subsection \<open>One submission at a time\<close>

text \<open>
  Speak is disabled while \<open>loading\<close> is true, so in every run each socket and each pending
  \<open>getUserMedia\<close> call holds a closure whose \<open>loading\<close> is false: the guard of
  \<open>handleSubmitAnswer\<close> never fires for an answer that arrives by voice.
\<close>

lemma sockets_callback: "sockets (callback cl now cb c) = sockets c"
  by (cases cb)
    (simp_all add: handleVoiceTranscript_def handleVoiceDone_def handleSubmitAnswer_of_def)

lemma mic_requests_callback: "mic_requests (callback cl now cb c) = mic_requests c"
  by (cases cb)
    (simp_all add: handleVoiceTranscript_def handleVoiceDone_def handleSubmitAnswer_of_def)

lemma sockets_callbacks:
  "sockets (foldl (\<lambda>c' cb. callback cl now cb c') c cbs) = sockets c"
  by (induction cbs arbitrary: c) (simp_all add: sockets_callback)

lemma mic_requests_callbacks:
  "mic_requests (foldl (\<lambda>c' cb. callback cl now cb c') c cbs) = mic_requests c"
  by (induction cbs arbitrary: c) (simp_all add: mic_requests_callback)

lemma sockets_socket_event: "sockets (socket_event i now handler c) = sockets c"
  by (simp add: socket_event_def Let_def sockets_callbacks)

lemma mic_requests_socket_event:
  "mic_requests (socket_event i now handler c) = mic_requests c"
  by (simp add: socket_event_def Let_def mic_requests_callbacks)

lemma closed_socket_idle:
  "\<forall>s\<in>set xs. \<not> cl_loading (ws_closure s) \<Longrightarrow> i < length xs \<Longrightarrow>
   \<forall>s\<in>set (xs[i := (xs ! i)\<lparr>ws_state := st\<rparr>]). \<not> cl_loading (ws_closure s)"
  by (auto simp: set_conv_nth nth_list_update)

lemma removed_request_idle:
  "\<forall>r\<in>set xs. \<not> cl_loading (fst r) \<Longrightarrow>
   \<forall>r\<in>set (take k xs @ drop (Suc k) xs). \<not> cl_loading (fst r)"
  by (auto dest: in_set_takeD in_set_dropD)

lemma closures_idle_handle: "closures_idle c \<Longrightarrow> closures_idle (handle mode e c)"
proof (cases e)
  case (EvTextSubmit now)
  then show "closures_idle c \<Longrightarrow> ?thesis"
    by (auto simp: handleSubmitAnswer_def closures_idle_def)
next
  case EvHintToggle
  then show "closures_idle c \<Longrightarrow> ?thesis"
    by (auto simp: closures_idle_def split: option.splits)
next
  case EvShowExample
  then show "closures_idle c \<Longrightarrow> ?thesis"
    by (auto simp: closures_idle_def split: option.splits)
next
  case EvSpeak
  then show "closures_idle c \<Longrightarrow> ?thesis"
    by (auto simp: closures_idle_def render_closure_def)
next
  case (EvMicGranted k)
  assume inv: "closures_idle c"
  show ?thesis
  proof (cases "k < length (mic_requests c)")
    case True
    then have "\<not> cl_loading (fst (mic_requests c ! k))"
      using inv by (simp add: closures_idle_def)
    then show ?thesis
      using inv True EvMicGranted removed_request_idle [of "mic_requests c" k]
      by (simp add: closures_idle_def Let_def)
  next
    case False
    then show ?thesis using inv EvMicGranted by simp
  qed
next
  case (EvMicError k m)
  assume inv: "closures_idle c"
  then show ?thesis
    using EvMicError removed_request_idle [of "mic_requests c" k]
    by (simp add: closures_idle_def)
next
  case (EvWsOpen i)
  assume inv: "closures_idle c"
  then show ?thesis
    using EvWsOpen closed_socket_idle [of "sockets c" i OPEN]
    by (simp add: closures_idle_def Let_def)
next
  case (EvWsMessage i now m)
  then show "closures_idle c \<Longrightarrow> ?thesis"
    by (simp add: closures_idle_def sockets_socket_event mic_requests_socket_event)
next
  case (EvWsError i now)
  then show "closures_idle c \<Longrightarrow> ?thesis"
    by (simp add: closures_idle_def sockets_socket_event mic_requests_socket_event)
next
  case (EvWsClose i)
  assume inv: "closures_idle c"
  then show ?thesis
    using EvWsClose closed_socket_idle [of "sockets c" i CLOSED]
    by (simp add: closures_idle_def)
next
  case (EvSubmitFulfilled k res)
  then show "closures_idle c \<Longrightarrow> ?thesis"
    by (simp add: closures_idle_def submit_fulfilled_def fetchNextQuestion_def Let_def)
next
  case (EvSubmitRejected k)
  then show "closures_idle c \<Longrightarrow> ?thesis"
    by (simp add: closures_idle_def submit_rejected_def)
next
  case (EvNextFulfilled now res)
  then show "closures_idle c \<Longrightarrow> ?thesis"
    by (simp add: closures_idle_def next_fulfilled_def Let_def split: option.splits)
next
  case EvNextRejected
  then show "closures_idle c \<Longrightarrow> ?thesis"
    by (simp add: closures_idle_def next_rejected_def)
qed (simp_all add: closures_idle_def)

lemma closures_idle_unmount:
  "closures_idle c \<Longrightarrow> closures_idle (unmount_children mode before c)"
  using closed_socket_idle [of "sockets c" _ CLOSED]
  by (auto simp: closures_idle_def unmount_children_def recorder_unmount_def Let_def
      split: option.splits)

lemma closures_idle_run: "closures_idle (run mode evs)"
proof (induction evs rule: rev_induct)
  case Nil
  show ?case
    by (simp add: run_def mounted_def fetchNextQuestion_def chat_init_def closures_idle_def)
next
  case (snoc e evs)
  then show ?case
    by (simp add: run_snoc step_def closures_idle_handle closures_idle_unmount)
qed

text \<open>
  The state after the first \<open>done\<close> message of the sample recording, and the handler of the
  latest render at that state: it refuses a further answer.
\<close>

lemma run_first_done_state:
  "run Practice (start_voice @ [EvWsMessage 0 7 (MsgDone [104, 105] sample_metrics)])
     = listening\<lparr>recorder := recorder_init,
         messages := [question_message 5 sample_question [87, 104, 121, 63] HM,
                      user_message 7 [104, 105]],
         currentHints := None, loading := True,
         api_log := [GetNext, spoken_answer],
         pending_submit := [(AId 7, Some HM)]\<rparr>"
  by (simp add: run_snoc run_start_voice step_first_done)

lemma latest_handler_refuses_while_in_flight:
  "handleSubmitAnswer 8 [104, 105] None
     (run Practice (start_voice @ [EvWsMessage 0 7 (MsgDone [104, 105] sample_metrics)]))
   = run Practice (start_voice @ [EvWsMessage 0 7 (MsgDone [104, 105] sample_metrics)])"
  unfolding run_first_done_state by (simp add: handleSubmitAnswer_def)

text \<open>
  C1, evaluated where the code departs from it. The first question is on the screen, the
  user clicks Speak, the microphone is granted and the socket opens; the socket then
  delivers two \<open>done\<close> messages before the first request is answered. After the first
  message a submission is in flight: \<open>loading\<close> is true, one request is awaited, and the
  handler of the latest render refuses a further answer. The socket's handler is the one of
  the render of the click, whose \<open>loading\<close> is false, so the second message is submitted as
  well: two user messages, two requests sent, two requests awaited.
\<close>

theorem second_voice_answer_while_in_flight:
  "loading (run Practice (start_voice @ [EvWsMessage 0 7 (MsgDone [104, 105] sample_metrics)]))
   \<and> pending_submit
       (run Practice (start_voice @ [EvWsMessage 0 7 (MsgDone [104, 105] sample_metrics)]))
     = [(AId 7, Some HM)]
   \<and> api_log
       (run Practice
          (start_voice @ [EvWsMessage 0 7 (MsgDone [104, 105] sample_metrics),
                          EvWsMessage 0 8 (MsgDone [104, 105] sample_metrics)]))
     = [GetNext, spoken_answer, spoken_answer]
   \<and> pending_submit
       (run Practice
          (start_voice @ [EvWsMessage 0 7 (MsgDone [104, 105] sample_metrics),
                          EvWsMessage 0 8 (MsgDone [104, 105] sample_metrics)]))
     = [(AId 7, Some HM), (AId 8, Some HM)]
   \<and> map msg_id
       (messages
          (run Practice
             (start_voice @ [EvWsMessage 0 7 (MsgDone [104, 105] sample_metrics),
                             EvWsMessage 0 8 (MsgDone [104, 105] sample_metrics)])))
     = [QId 5, AId 7, AId 8]"
proof -
  note one = run_first_done_state
  have two: "run Practice
        (start_voice @ [EvWsMessage 0 7 (MsgDone [104, 105] sample_metrics),
                        EvWsMessage 0 8 (MsgDone [104, 105] sample_metrics)])
      = step Practice
          (run Practice (start_voice @ [EvWsMessage 0 7 (MsgDone [104, 105] sample_metrics)]))
          (EvWsMessage 0 8 (MsgDone [104, 105] sample_metrics))"
    by (simp add: run_def)
  show ?thesis
    unfolding two unfolding one step_second_done
    by (simp add: question_message_def user_message_def)
qed

subsection \<open>The hint panel\<close>

lemma has_items_absent_or_empty: "\<not> has_items xs \<longleftrightarrow> xs = None \<or> xs = Some []"
  by (cases xs) (simp_all add: has_items_def)

text \<open>
  C9. When \<open>bullets\<close> and \<open>personal_hooks\<close> are both empty or absent, the hint panel
  renders nothing, whatever its state: there is no toggle and no reveal button to act on, so
  neither the avoid list nor the example answer is shown, even when they are not empty.
\<close>

theorem empty_tier1_hides_panel:
  assumes "bullets h = None \<or> bullets h = Some []"
    and "personal_hooks h = None \<or> personal_hooks h = Some []"
  shows "HintPanel h disabled st = None
    \<and> shown_avoid (HintPanel h disabled st) = []
    \<and> shown_example (HintPanel h disabled st) = None
    \<and> (currentHints c = Some h \<longrightarrow>
         hint_area mode c = None
         \<and> handle mode EvHintToggle c = c
         \<and> handle mode EvShowExample c = c)"
proof -
  have none: "HintPanel h d s = None" for d s
    using assms by (simp add: HintPanel_def has_items_absent_or_empty)
  have area: "hint_area mode c = None" if "currentHints c = Some h"
    using that none by (simp add: hint_area_def)
  show ?thesis
    using none area by (simp add: shown_avoid_def shown_example_def)
qed

theorem empty_tier1_hides_panel_witness:
  "(bullets bare_hints = None \<or> bullets bare_hints = Some [])
   \<and> (personal_hooks bare_hints = None \<or> personal_hooks bare_hints = Some [])
   \<and> avoid bare_hints = Some [[106, 97, 114, 103, 111, 110]]
   \<and> example_answer bare_hints = Some [73, 32, 108, 101, 100]
   \<and> HintPanel bare_hints False \<lparr>panel_open = True, showExample = True\<rparr> = None
   \<and> shown_avoid (HintPanel bare_hints False \<lparr>panel_open = True, showExample = True\<rparr>) = []
   \<and> shown_example (HintPanel bare_hints False \<lparr>panel_open = True, showExample = True\<rparr>) = None
   \<and> hint_area Practice (chat_init\<lparr>currentHints := Some bare_hints\<rparr>) = None
   \<and> handle Practice EvShowExample (chat_init\<lparr>currentHints := Some bare_hints\<rparr>)
       = chat_init\<lparr>currentHints := Some bare_hints\<rparr>"
proof -
  have b: "bullets bare_hints = None \<or> bullets bare_hints = Some []"
    by (simp add: bare_hints_def)
  have p: "personal_hooks bare_hints = None \<or> personal_hooks bare_hints = Some []"
    by (simp add: bare_hints_def)
  have cur: "currentHints (chat_init\<lparr>currentHints := Some bare_hints\<rparr>) = Some bare_hints"
    by simp
  have fields: "avoid bare_hints = Some [[106, 97, 114, 103, 111, 110]]
      \<and> example_answer bare_hints = Some [73, 32, 108, 101, 100]"
    by (simp add: bare_hints_def)
  show ?thesis
    using b p fields cur
      empty_tier1_hides_panel [OF b p, of False "\<lparr>panel_open = True, showExample = True\<rparr>"
        "chat_init\<lparr>currentHints := Some bare_hints\<rparr>" Practice]
    by blast
qed

lemma ChatMessage_render_ignores_hints:
  "ChatMessage_render (m\<lparr>msg_hints := h\<rparr>) = ChatMessage_render m"
  by (simp add: ChatMessage_render_def Let_def split: option.split)

text \<open>
  C3. In real mode the result of \<open>get_next\<close> carries no hints, and hints come with a
  question only in practice mode. Whatever the response carried, the chat in real mode
  renders no hint panel, and a message bubble never shows the hints stored in the message.
\<close>

theorem real_mode_shows_no_hints:
  "(st_mode st = Real \<longrightarrow> nq_hints (get_next hint_generator st) = None)
   \<and> (nq_hints (get_next hint_generator st) \<noteq> None \<longrightarrow> st_mode st = Practice)
   \<and> hint_area Real c = None
   \<and> snd (chat_screen Real c) = None
   \<and> ChatMessage_render (m\<lparr>msg_hints := h\<rparr>) = ChatMessage_render m"
proof -
  have "st_mode st = Real \<longrightarrow> nq_hints (get_next hint_generator st) = None"
    by (simp add: get_next_def Let_def)
  moreover have "nq_hints (get_next hint_generator st) \<noteq> None \<longrightarrow> st_mode st = Practice"
    by (simp add: get_next_def Let_def split: if_splits)
  moreover have "hint_area Real c = None"
    by (simp add: hint_area_def split: option.split)
  ultimately show ?thesis
    by (simp add: chat_screen_def ChatMessage_render_ignores_hints)
qed

theorem real_mode_shows_no_hints_witness:
  "st_mode (start_interview Real sample_plan) = Real
   \<and> nq_done (get_next (\<lambda>_. sample_hints) (start_interview Real sample_plan)) = False
   \<and> nq_hints (get_next (\<lambda>_. sample_hints) (start_interview Real sample_plan)) = None
   \<and> nq_hints (get_next (\<lambda>_. sample_hints) (start_interview Practice sample_plan)) \<noteq> None
   \<and> st_mode (start_interview Practice sample_plan) = Practice
   \<and> hint_area Real (chat_init\<lparr>currentHints := Some sample_hints\<rparr>) = None
   \<and> hint_area Practice (chat_init\<lparr>currentHints := Some sample_hints\<rparr>) \<noteq> None"
proof -
  have real: "st_mode (start_interview Real sample_plan) = Real"
    by (simp add: start_interview_def)
  have q: "nq_done (get_next (\<lambda>_. sample_hints) (start_interview Real sample_plan)) = False"
    by (simp add: get_next_def start_interview_def sample_plan_def Let_def)
  have practice: "nq_hints (get_next (\<lambda>_. sample_hints) (start_interview Practice sample_plan)) \<noteq> None"
    by (simp add: get_next_def start_interview_def sample_plan_def Let_def)
  have shown: "hint_area Practice (chat_init\<lparr>currentHints := Some sample_hints\<rparr>) \<noteq> None"
    by (simp add: hint_area_def chat_init_def HintPanel_def has_items_def sample_hints_def)
  show ?thesis
    using real q practice shown
      real_mode_shows_no_hints [of "start_interview Real sample_plan" "\<lambda>_. sample_hints"
        "chat_init\<lparr>currentHints := Some sample_hints\<rparr>"]
      real_mode_shows_no_hints [of "start_interview Practice sample_plan" "\<lambda>_. sample_hints"]
    by blast
qed

subsection \<open>The example answer\<close>

lemma step_toggle:
  "step Practice asked EvHintToggle = asked\<lparr>hintPanel := \<lparr>panel_open = True, showExample = False\<rparr>\<rparr>"
  by (simp add: eval_defs asked_def hint_area_def HintPanel_def has_items_def sample_hints_def
      handleToggle_def)

lemma step_reveal:
  "step Practice (asked\<lparr>hintPanel := \<lparr>panel_open = True, showExample = False\<rparr>\<rparr>) EvShowExample
     = asked\<lparr>hintPanel := \<lparr>panel_open = True, showExample = True\<rparr>\<rparr>"
  by (simp add: eval_defs asked_def hint_area_def HintPanel_def has_items_def sample_hints_def
      clickShowExample_def truthy_def)

lemma step_text_mode:
  "step Practice (asked\<lparr>hintPanel := p\<rparr>) (EvSetInputMode TextInput)
     = asked\<lparr>hintPanel := p, inputMode := TextInput, recorder_key := 1\<rparr>"
  by (simp add: eval_defs asked_def)

lemma step_type:
  "step Practice (asked\<lparr>hintPanel := p, inputMode := TextInput, recorder_key := 1\<rparr>)
     (EvType [104, 105])
     = asked\<lparr>hintPanel := p, inputMode := TextInput, recorder_key := 1, inputText := [104, 105]\<rparr>"
  by (simp add: eval_defs asked_def)

lemma step_send:
  "step Practice
     (asked\<lparr>hintPanel := p, inputMode := TextInput, recorder_key := 1, inputText := [104, 105]\<rparr>)
     (EvTextSubmit 7)
     = asked\<lparr>inputMode := TextInput, recorder_key := 1,
         messages := [question_message 5 sample_question [87, 104, 121, 63] HM,
                      user_message 7 [104, 105]],
         currentHints := None, loading := True,
         api_log := [GetNext, typed_answer],
         pending_submit := [(AId 7, Some HM)]\<rparr>"
  by (simp add: eval_defs sample_defs submit_defs)

lemma run_typed_answer:
  "step Practice (step Practice (step Practice (asked\<lparr>hintPanel := p\<rparr>)
       (EvSetInputMode TextInput)) (EvType [104, 105])) (EvTextSubmit 7)
     = asked\<lparr>inputMode := TextInput, recorder_key := 1,
         messages := [question_message 5 sample_question [87, 104, 121, 63] HM,
                      user_message 7 [104, 105]],
         currentHints := None, loading := True,
         api_log := [GetNext, typed_answer],
         pending_submit := [(AId 7, Some HM)]\<rparr>"
  by (simp only: step_text_mode step_type step_send)

lemma asked_panel: "asked\<lparr>hintPanel := hint_panel_init\<rparr> = asked"
  by (simp add: asked_def chat_init_def)

lemma shown_revealed:
  "shown_example (hint_area Practice (asked\<lparr>hintPanel := \<lparr>panel_open = True, showExample = True\<rparr>\<rparr>))
     = Some [73, 32, 108, 101, 100]"
  by (simp add: shown_example_def hint_area_def HintPanel_def has_items_def sample_hints_def
      asked_def chat_init_def truthy_def)

lemma shown_toggled:
  "shown_example (hint_area Practice (asked\<lparr>hintPanel := \<lparr>panel_open = True, showExample = False\<rparr>\<rparr>))
     = None"
  by (simp add: shown_example_def hint_area_def HintPanel_def has_items_def
      sample_hints_def asked_def chat_init_def truthy_def)

text \<open>
  C4, evaluated where the code departs from it. In practice mode the question arrives with an
  example answer. Opening the hints does not show it; the further click on the reveal button
  does. The user then types an answer and sends it. The request carries the answer and
  nothing else, and the client ends in the state of the run in which the hints were never
  opened: the reveal only set the panel's \<open>showExample\<close>, which is gone when the panel leaves
  the tree, and nothing the server receives tells the two runs apart.
\<close>

theorem revealed_example_not_recorded:
  "shown_example
     (hint_area Practice (run Practice [EvNextFulfilled 5 sample_question, EvHintToggle]))
     = None
   \<and> shown_example
       (hint_area Practice
          (run Practice [EvNextFulfilled 5 sample_question, EvHintToggle, EvShowExample]))
     = Some [73, 32, 108, 101, 100]
   \<and> api_log
       (run Practice
          [EvNextFulfilled 5 sample_question, EvHintToggle, EvShowExample,
           EvSetInputMode TextInput, EvType [104, 105], EvTextSubmit 7])
     = [GetNext, PostAnswer \<lparr>answer = [104, 105], voice_metrics = None\<rparr>]
   \<and> run Practice
       [EvNextFulfilled 5 sample_question, EvHintToggle, EvShowExample,
        EvSetInputMode TextInput, EvType [104, 105], EvTextSubmit 7]
     = run Practice
         [EvNextFulfilled 5 sample_question,
          EvSetInputMode TextInput, EvType [104, 105], EvTextSubmit 7]"
proof -
  have toggled: "run Practice [EvNextFulfilled 5 sample_question, EvHintToggle]
      = asked\<lparr>hintPanel := \<lparr>panel_open = True, showExample = False\<rparr>\<rparr>"
    by (simp add: run_def step_asked step_toggle)
  have revealed: "run Practice [EvNextFulfilled 5 sample_question, EvHintToggle, EvShowExample]
      = asked\<lparr>hintPanel := \<lparr>panel_open = True, showExample = True\<rparr>\<rparr>"
    by (simp add: run_def step_asked step_toggle step_reveal)
  have with_reveal: "run Practice
       [EvNextFulfilled 5 sample_question, EvHintToggle, EvShowExample,
        EvSetInputMode TextInput, EvType [104, 105], EvTextSubmit 7]
      = asked\<lparr>inputMode := TextInput, recorder_key := 1,
         messages := [question_message 5 sample_question [87, 104, 121, 63] HM,
                      user_message 7 [104, 105]],
         currentHints := None, loading := True,
         api_log := [GetNext, typed_answer],
         pending_submit := [(AId 7, Some HM)]\<rparr>"
    by (simp add: run_def step_asked step_toggle step_reveal run_typed_answer)
  have without: "run Practice
       [EvNextFulfilled 5 sample_question,
        EvSetInputMode TextInput, EvType [104, 105], EvTextSubmit 7]
      = asked\<lparr>inputMode := TextInput, recorder_key := 1,
         messages := [question_message 5 sample_question [87, 104, 121, 63] HM,
                      user_message 7 [104, 105]],
         currentHints := None, loading := True,
         api_log := [GetNext, typed_answer],
         pending_submit := [(AId 7, Some HM)]\<rparr>"
    using run_typed_answer [of hint_panel_init]
    by (simp add: run_def step_asked asked_panel)
  show ?thesis
    unfolding toggled revealed with_reveal without
    by (simp add: shown_revealed shown_toggled typed_answer_def)
qed

subsection \<open>Voice input\<close>















subsection \<open>PCM conversion\<close>
















subsection \<open>Evaluation\<close>

text \<open>
  C6. When \<open>evaluate\<close> succeeds on a session, the session is \<open>DONE\<close> and holds the
  report, and every later call returns that same report and leaves the session as it is,
  whatever the evaluation agent would compute now.
\<close>

theorem evaluate_idempotent:
  assumes "evaluate agent st = Inr (r, st')"
  shows "evaluate agent' st' = Inr (r, st') \<and> st_phase st' = DONE \<and> st_report st' = Some r"
  using assms by (auto simp: evaluate_def Let_def split: if_splits option.splits)

theorem evaluate_idempotent_witness:
  "evaluate (sample_report 80)
     ((start_interview Practice sample_plan)\<lparr>st_phase := EVALUATING, st_turns := [sample_turn]\<rparr>)
   = Inr (sample_report 80 [sample_turn],
          (start_interview Practice sample_plan)\<lparr>st_phase := DONE, st_turns := [sample_turn],
             st_report := Some (sample_report 80 [sample_turn])\<rparr>)
   \<and> evaluate (sample_report 10)
       ((start_interview Practice sample_plan)\<lparr>st_phase := DONE, st_turns := [sample_turn],
          st_report := Some (sample_report 80 [sample_turn])\<rparr>)
     = Inr (sample_report 80 [sample_turn],
            (start_interview Practice sample_plan)\<lparr>st_phase := DONE, st_turns := [sample_turn],
               st_report := Some (sample_report 80 [sample_turn])\<rparr>)
   \<and> sample_report 10 [sample_turn] \<noteq> sample_report 80 [sample_turn]"
proof -
  have first: "evaluate (sample_report 80)
     ((start_interview Practice sample_plan)\<lparr>st_phase := EVALUATING, st_turns := [sample_turn]\<rparr>)
   = Inr (sample_report 80 [sample_turn],
          (start_interview Practice sample_plan)\<lparr>st_phase := DONE, st_turns := [sample_turn],
             st_report := Some (sample_report 80 [sample_turn])\<rparr>)"
    by (simp add: evaluate_def start_interview_def Let_def)
  have differ: "sample_report 10 [sample_turn] \<noteq> sample_report 80 [sample_turn]"
    by (simp add: sample_report_def)
  show ?thesis
    using first differ evaluate_idempotent [OF first, of "sample_report 10"]
    by simp
qed

subsection \<open>Routing\<close>










end
